theory Spec2Isabelle
  imports Complex_Main
begin

section \<open>Emotion blending and modulation: the embedding\<close>

text \<open>
  The Python of \<^verbatim>\<open>app/emotion_blend.py\<close> and of \<^verbatim>\<open>_detect_emotion_blend\<close> in
  \<^verbatim>\<open>app/inference.py\<close>, function by function.  A Python float is a real number or NaN:
  arithmetic is exact (no rounding of float64, no overflow), NaN is absorbing in arithmetic
  and makes every comparison false.  A dict is a map from its string keys; a raised
  exception is the left summand of the result.
\<close>

subsection \<open>Numbers\<close>

datatype pyfloat = Fl real | NaN

datatype py_error = KeyError string | ValueError

fun fadd :: "pyfloat \<Rightarrow> pyfloat \<Rightarrow> pyfloat" where
  "fadd (Fl x) (Fl y) = Fl (x + y)"
| "fadd _ _ = NaN"

fun fsub :: "pyfloat \<Rightarrow> pyfloat \<Rightarrow> pyfloat" where
  "fsub (Fl x) (Fl y) = Fl (x - y)"
| "fsub _ _ = NaN"

fun fmul :: "pyfloat \<Rightarrow> pyfloat \<Rightarrow> pyfloat" where
  "fmul (Fl x) (Fl y) = Fl (x * y)"
| "fmul _ _ = NaN"

text \<open>\<^verbatim>\<open>a > t\<close> for a float \<open>a\<close> and a literal threshold \<open>t\<close>: false on NaN.\<close>

fun fgt :: "pyfloat \<Rightarrow> real \<Rightarrow> bool" where
  "fgt (Fl x) t = (t < x)"
| "fgt NaN t = False"

text \<open>
  Rounding to the nearest integer, ties to the even one: what \<^verbatim>\<open>round\<close> does with the
  scaled value, for Python floats and for numpy scalars alike.
\<close>

definition rint :: "real \<Rightarrow> int" where
  "rint x =
     (let f = \<lfloor>x\<rfloor>; d = x - of_int f
      in if d < 1 / 2 then f
         else if 1 / 2 < d then f + 1
         else if even f then f else f + 1)"

text \<open>\<^verbatim>\<open>round(x, ndigits)\<close> with a positive number of digits; NaN stays NaN.\<close>

fun py_round :: "pyfloat \<Rightarrow> nat \<Rightarrow> pyfloat" where
  "py_round (Fl x) n = Fl (of_int (rint (x * 10 ^ n)) / 10 ^ n)"
| "py_round NaN n = NaN"

subsection \<open>Dictionaries\<close>

type_synonym blend = "string \<rightharpoonup> pyfloat"

text \<open>\<^verbatim>\<open>dict(pairs)\<close>: the pairs are stored in order, a later key overwriting an earlier one.\<close>

definition dict :: "(string \<times> pyfloat) list \<Rightarrow> blend" where
  "dict kvs = foldl (\<lambda>m (k, v). m(k \<mapsto> v)) Map.empty kvs"

definition EMOTION_LABELS :: "string list" where
  "EMOTION_LABELS = [''calm'', ''guarded'', ''lit'']"

subsection \<open>softmax and blend_emotions\<close>

text \<open>\<^verbatim>\<open>np.max\<close> of a one-dimensional array; it raises ValueError on the empty array.\<close>

fun np_max :: "real list \<Rightarrow> py_error + real" where
  "np_max [] = Inl ValueError"
| "np_max (x # xs) = Inr (fold max xs x)"

definition softmax :: "real list \<Rightarrow> py_error + real list" where
  "softmax x =
     (case np_max x of
        Inl e \<Rightarrow> Inl e
      | Inr m \<Rightarrow>
          (let e_x = map (\<lambda>v. exp (v - m)) x
           in Inr (map (\<lambda>v. v / sum_list e_x) e_x)))"

text \<open>\<^verbatim>\<open>np.clip(p, 0, 1)\<close> on one entry.\<close>

definition clip :: "real \<Rightarrow> real \<Rightarrow> real \<Rightarrow> real" where
  "clip p lo hi = min (max p lo) hi"

text \<open>
  \<^verbatim>\<open>blend_emotions(logits, alpha)\<close>.  The source does not look at \<open>alpha\<close> before dividing.
  With \<open>alpha = 0\<close> the numpy division raises nothing: every quotient is an infinity or NaN,
  so the maximum is NaN or an infinity, the entry that attains it becomes NaN under
  \<^verbatim>\<open>x - np.max(x)\<close>, the sum of the exponentials is NaN, every probability is NaN and
  \<^verbatim>\<open>np.clip\<close> leaves NaN as it is.  The empty array fails in \<^verbatim>\<open>np.max\<close> for every \<open>alpha\<close>.
\<close>

definition blend_emotions :: "real list \<Rightarrow> real \<Rightarrow> py_error + blend" where
  "blend_emotions logits alpha =
     (if logits = [] then Inl ValueError
      else if alpha = 0 then Inr (dict (zip EMOTION_LABELS (map (\<lambda>_. NaN) logits)))
      else
        (case softmax (map (\<lambda>v. v / alpha) logits) of
           Inl e \<Rightarrow> Inl e
         | Inr probs \<Rightarrow>
             Inr (dict (zip EMOTION_LABELS (map (\<lambda>p. Fl (clip p 0 1)) probs)))))"

subsection \<open>compute_modulation\<close>

record modulation =
  tts_pitch_shift :: pyfloat
  tts_speed_scale :: pyfloat
  glow_intensity :: pyfloat
  glow_hue :: pyfloat
  glow_easing_curve :: string

text \<open>\<^verbatim>\<open>blend[key]\<close>: KeyError when the key is absent.\<close>

definition getitem :: "blend \<Rightarrow> string \<Rightarrow> py_error + pyfloat" where
  "getitem b key = (case b key of None \<Rightarrow> Inl (KeyError key) | Some v \<Rightarrow> Inr v)"

definition compute_modulation :: "blend \<Rightarrow> py_error + modulation" where
  "compute_modulation b =
     (case getitem b ''calm'' of Inl e \<Rightarrow> Inl e | Inr calm \<Rightarrow>
     (case getitem b ''guarded'' of Inl e \<Rightarrow> Inl e | Inr guarded \<Rightarrow>
     (case getitem b ''lit'' of Inl e \<Rightarrow> Inl e | Inr lit \<Rightarrow>
        Inr \<lparr> tts_pitch_shift = py_round (fmul (fsub lit calm) (Fl 0.08)) 3,
              tts_speed_scale =
                py_round (fsub (fadd (Fl 0.9) (fmul lit (Fl 0.2))) (fmul guarded (Fl 0.05))) 3,
              glow_intensity =
                py_round (fadd (fadd (fmul (Fl 0.4) calm) (fmul (Fl 0.25) guarded))
                               (fmul (Fl 0.9) lit)) 2,
              glow_hue = py_round (fadd (fmul (Fl 120) lit) (fmul (Fl 240) guarded)) 1,
              glow_easing_curve =
                (if fgt calm 0.6 then ''sine''
                 else if fgt guarded 0.5 then ''ease-in''
                 else ''cubic'') \<rparr>)))"

subsection \<open>smooth_blend\<close>

text \<open>
  The loop over \<^verbatim>\<open>EMOTION_LABELS\<close>: \<open>smoothed\<close> is the dict built so far.  In the
  expression \<^verbatim>\<open>new_blend[key]\<close> is read before \<^verbatim>\<open>prev_blend[key]\<close>.
\<close>

fun smooth_loop :: "string list \<Rightarrow> blend \<Rightarrow> blend \<Rightarrow> real \<Rightarrow> blend \<Rightarrow> py_error + blend" where
  "smooth_loop [] prev_blend new_blend smoothing smoothed = Inr smoothed"
| "smooth_loop (key # keys) prev_blend new_blend smoothing smoothed =
     (case getitem new_blend key of Inl e \<Rightarrow> Inl e | Inr n \<Rightarrow>
     (case getitem prev_blend key of Inl e \<Rightarrow> Inl e | Inr p \<Rightarrow>
        smooth_loop keys prev_blend new_blend smoothing
          (smoothed(key \<mapsto>
             py_round (fadd (fmul (Fl (1 - smoothing)) n) (fmul (Fl smoothing) p)) 3))))"

definition smooth_blend :: "blend \<Rightarrow> blend \<Rightarrow> real \<Rightarrow> py_error + blend" where
  "smooth_blend prev_blend new_blend smoothing =
     smooth_loop EMOTION_LABELS prev_blend new_blend smoothing Map.empty"

subsection \<open>process_emotion_logits\<close>

record pipeline_result =
  blend_vector :: blend
  modulation :: modulation

text \<open>
  Truth value of the \<open>prev_blend\<close> argument, which is \<^verbatim>\<open>None\<close> or a dict: \<^verbatim>\<open>None\<close> and the
  empty dict are false, every other dict is true.
\<close>

definition truthy :: "blend option \<Rightarrow> bool" where
  "truthy prev_blend = (case prev_blend of None \<Rightarrow> False | Some d \<Rightarrow> d \<noteq> Map.empty)"

text \<open>The defaults \<^verbatim>\<open>alpha=0.7\<close> and \<^verbatim>\<open>smoothing=0.3\<close> are the ones of the two callees.\<close>

definition process_emotion_logits :: "real list \<Rightarrow> blend option \<Rightarrow> py_error + pipeline_result" where
  "process_emotion_logits logits prev_blend =
     (case blend_emotions logits 0.7 of Inl e \<Rightarrow> Inl e | Inr new_blend \<Rightarrow>
     (case (if truthy prev_blend then smooth_blend (the prev_blend) new_blend 0.3
            else Inr new_blend) of Inl e \<Rightarrow> Inl e | Inr final_blend \<Rightarrow>
     (case compute_modulation final_blend of Inl e \<Rightarrow> Inl e | Inr m \<Rightarrow>
        Inr \<lparr> blend_vector = final_blend, modulation = m \<rparr>)))"

subsection \<open>_detect_emotion_blend\<close>

text \<open>
  \<^verbatim>\<open>calm, guarded, lit = emotion_vector\<close> raises ValueError unless the vector has exactly
  three entries.
\<close>

fun detect_emotion_blend :: "pyfloat list \<Rightarrow> py_error + string" where
  "detect_emotion_blend [calm, guarded, lit] =
     (let threshold = 0.3 in
      Inr (if fgt calm threshold \<and> fgt lit threshold then ''hopeful calm''
           else if fgt guarded threshold \<and> fgt lit threshold then ''guarded optimism''
           else if fgt calm threshold \<and> fgt guarded threshold then ''resolute peace''
           else if fgt calm 0.6 then ''pure calm''
           else if fgt guarded 0.6 then ''pure guarded''
           else if fgt lit 0.6 then ''pure lit''
           else ''neutral blend''))"
| "detect_emotion_blend _ = Inl ValueError"

subsection \<open>The classification policy as the specification words it\<close>

text \<open>
  The specification describes the labelling as a list of rules tried in a fixed priority
  order, the first rule whose condition holds giving the label, and a default label when no
  rule applies.  These two definitions follow that wording; they are compared with
  \<open>detect_emotion_blend\<close> below.
\<close>

fun first_match :: "(('a \<Rightarrow> bool) \<times> string) list \<Rightarrow> string \<Rightarrow> 'a \<Rightarrow> string" where
  "first_match [] dflt v = dflt"
| "first_match ((cond, label) # rules) dflt v =
     (if cond v then label else first_match rules dflt v)"

definition classify_priority :: "((pyfloat \<times> pyfloat \<times> pyfloat \<Rightarrow> bool) \<times> string) list" where
  "classify_priority =
     [(\<lambda>(calm, guarded, lit). fgt calm 0.3 \<and> fgt lit 0.3, ''hopeful calm''),
      (\<lambda>(calm, guarded, lit). fgt guarded 0.3 \<and> fgt lit 0.3, ''guarded optimism''),
      (\<lambda>(calm, guarded, lit). fgt calm 0.3 \<and> fgt guarded 0.3, ''resolute peace''),
      (\<lambda>(calm, guarded, lit). fgt calm 0.6, ''pure calm''),
      (\<lambda>(calm, guarded, lit). fgt guarded 0.6, ''pure guarded''),
      (\<lambda>(calm, guarded, lit). fgt lit 0.6, ''pure lit'')]"

section \<open>Rounding\<close>

lemma rint_near: "\<bar>of_int (rint x) - x\<bar> \<le> 1 / 2"
proof -
  have "of_int \<lfloor>x\<rfloor> \<le> x" and "x < of_int \<lfloor>x\<rfloor> + 1" by linarith+
  then show ?thesis by (auto simp: rint_def Let_def)
qed

lemma rint_mono: "x \<le> y \<Longrightarrow> rint x \<le> rint y"
proof (rule ccontr)
  assume xy: "x \<le> y" and "\<not> rint x \<le> rint y"
  then have "rint y + 1 \<le> rint x" by simp
  then have gap: "(of_int (rint y) :: real) + 1 \<le> of_int (rint x)"
    by (metis of_int_le_iff of_int_add of_int_1)
  from rint_near [of x] rint_near [of y] gap xy have "x = y" by linarith
  with \<open>\<not> rint x \<le> rint y\<close> show False by simp
qed

lemma py_round_near:
  "\<exists>r. py_round (Fl x) n = Fl r \<and> \<bar>r - x\<bar> \<le> 1 / (2 * 10 ^ n)"
proof -
  define p :: real where "p = 10 ^ n"
  define d where "d = of_int (rint (x * p)) - x * p"
  have p: "0 < p" by (simp add: p_def)
  have "\<bar>d\<bar> \<le> 1 / 2" unfolding d_def by (rule rint_near)
  then have "\<bar>d\<bar> / p \<le> (1 / 2) / p" using p by (intro divide_right_mono) simp_all
  moreover have "of_int (rint (x * p)) / p - x = d / p"
    using p by (simp add: d_def diff_divide_distrib)
  ultimately have "\<bar>of_int (rint (x * p)) / p - x\<bar> \<le> 1 / (2 * p)"
    using p by (simp add: abs_divide)
  then show ?thesis by (simp add: p_def)
qed

lemma py_round_mono:
  "x \<le> y \<Longrightarrow> py_round (Fl x) n = Fl r \<Longrightarrow> py_round (Fl y) n = Fl s \<Longrightarrow> r \<le> s"
proof -
  assume xy: "x \<le> y" and r: "py_round (Fl x) n = Fl r" and s: "py_round (Fl y) n = Fl s"
  from xy have "x * 10 ^ n \<le> y * 10 ^ n" by simp
  then have "rint (x * 10 ^ n) \<le> rint (y * 10 ^ n)" by (rule rint_mono)
  then have "(of_int (rint (x * 10 ^ n)) :: real) \<le> of_int (rint (y * 10 ^ n))" by simp
  then have "of_int (rint (x * 10 ^ n)) / (10 ^ n :: real) \<le> of_int (rint (y * 10 ^ n)) / 10 ^ n"
    by (simp add: divide_right_mono)
  with r s show ?thesis by simp
qed

section \<open>The softmax of three scores\<close>

text \<open>The shift by the maximum cancels: each entry is its exponential over the sum.\<close>

lemma softmax3:
  "softmax [a, b, c] =
     Inr [exp a / (exp a + exp b + exp c),
          exp b / (exp a + exp b + exp c),
          exp c / (exp a + exp b + exp c)]"
proof -
  define m where "m = fold max [b, c] a"
  have s: "exp (a - m) + (exp (b - m) + exp (c - m)) = (exp a + exp b + exp c) / exp m"
    by (simp add: exp_diff add_divide_distrib)
  have q: "\<And>v. exp (v - m) / ((exp a + exp b + exp c) / exp m) = exp v / (exp a + exp b + exp c)"
    by (simp add: exp_diff)
  have "softmax [a, b, c] =
      Inr [exp (a - m) / (exp (a - m) + (exp (b - m) + exp (c - m))),
           exp (b - m) / (exp (a - m) + (exp (b - m) + exp (c - m))),
           exp (c - m) / (exp (a - m) + (exp (b - m) + exp (c - m)))]"
    unfolding softmax_def m_def by (simp add: Let_def)
  then show ?thesis unfolding s q .
qed

section \<open>Classification\<close>

text \<open>
  C2.  \<open>_detect_emotion_blend\<close> is the first-match evaluation of the priority list: calm and
  lit both above 0.3 give "hopeful calm", then guarded and lit both above 0.3 give
  "guarded optimism", then calm and guarded both above 0.3 give "resolute peace", then the
  single-category tests calm, guarded, lit above 0.6 in that order, and "neutral blend"
  otherwise.  On the vector (0.35, 0.1, 0.4) the label is "hopeful calm".
\<close>

theorem detect_emotion_blend_first_match:
  "detect_emotion_blend [calm, guarded, lit] =
     Inr (first_match classify_priority ''neutral blend'' (calm, guarded, lit))
   \<and> detect_emotion_blend [Fl 0.35, Fl 0.1, Fl 0.4] = Inr ''hopeful calm''"
  by (simp add: classify_priority_def Let_def)

text \<open>
  C3, as the specification states it, fails: on the uniform vector the label is not
  "neutral blend".
\<close>

theorem uniform_not_neutral:
  "detect_emotion_blend [Fl (1 / 3), Fl (1 / 3), Fl (1 / 3)] \<noteq> Inr ''neutral blend''"
  by (simp add: Let_def)

text \<open>
  C3, amended.  For the scores (0, 0, 0) and the default sharpness 0.7, \<open>blend_emotions\<close>
  returns the distribution with 1/3 on each label, and \<open>_detect_emotion_blend\<close> on
  (1/3, 1/3, 1/3) returns "hopeful calm": calm and lit are both above 0.3, so the first
  rule applies.
\<close>

theorem uniform_scores_hopeful_calm:
  "blend_emotions [0, 0, 0] 0.7 =
     Inr [''calm'' \<mapsto> Fl (1 / 3), ''guarded'' \<mapsto> Fl (1 / 3), ''lit'' \<mapsto> Fl (1 / 3)]
   \<and> detect_emotion_blend [Fl (1 / 3), Fl (1 / 3), Fl (1 / 3)] = Inr ''hopeful calm''"
  by (simp add: blend_emotions_def softmax3 dict_def EMOTION_LABELS_def clip_def Let_def)

section \<open>Normalisation\<close>

lemma clip_unit: "0 \<le> p \<Longrightarrow> p \<le> 1 \<Longrightarrow> clip p 0 1 = p"
  by (simp add: clip_def)


lemma share_clip:
  fixes e s :: real
  assumes "0 < e" and "0 < s"
  shows "clip (e / (e + s)) 0 1 = e / (e + s)"
proof (rule clip_unit)
  show "0 \<le> e / (e + s)" using assms by simp
  show "e / (e + s) \<le> 1" using assms by simp
qed

lemma blend_emotions3:
  assumes "alpha \<noteq> 0"
  shows "blend_emotions [a, b, c] alpha =
     Inr [''calm'' \<mapsto> Fl (exp (a / alpha) / (exp (a / alpha) + exp (b / alpha) + exp (c / alpha))),
          ''guarded'' \<mapsto> Fl (exp (b / alpha) / (exp (a / alpha) + exp (b / alpha) + exp (c / alpha))),
          ''lit'' \<mapsto> Fl (exp (c / alpha) / (exp (a / alpha) + exp (b / alpha) + exp (c / alpha)))]"
proof -
  define A B C where "A = exp (a / alpha)" and "B = exp (b / alpha)" and "C = exp (c / alpha)"
  have pos: "0 < A" "0 < B" "0 < C" by (simp_all add: A_def B_def C_def)
  have sa: "A + B + C = A + (B + C)" and sb: "A + B + C = B + (A + C)"
    and sc: "A + B + C = C + (A + B)" by simp_all
  have ca: "clip (A / (A + B + C)) 0 1 = A / (A + B + C)"
    unfolding sa using pos by (intro share_clip) simp_all
  have cb: "clip (B / (A + B + C)) 0 1 = B / (A + B + C)"
    unfolding sb using pos by (intro share_clip) simp_all
  have cc: "clip (C / (A + B + C)) 0 1 = C / (A + B + C)"
    unfolding sc using pos by (intro share_clip) simp_all
  have "blend_emotions [a, b, c] alpha =
      Inr [''calm'' \<mapsto> Fl (clip (A / (A + B + C)) 0 1),
           ''guarded'' \<mapsto> Fl (clip (B / (A + B + C)) 0 1),
           ''lit'' \<mapsto> Fl (clip (C / (A + B + C)) 0 1)]"
    using assms
    by (simp add: blend_emotions_def softmax3 dict_def EMOTION_LABELS_def A_def B_def C_def)
  then have "blend_emotions [a, b, c] alpha =
      Inr [''calm'' \<mapsto> Fl (A / (A + B + C)),
           ''guarded'' \<mapsto> Fl (B / (A + B + C)),
           ''lit'' \<mapsto> Fl (C / (A + B + C))]"
    by (simp only: ca cb cc)
  then show ?thesis unfolding A_def B_def C_def .
qed









section \<open>Temporal smoothing\<close>

lemma smooth_blend_keys:
  assumes "prev ''calm'' = Some p1" "prev ''guarded'' = Some p2" "prev ''lit'' = Some p3"
    and "new ''calm'' = Some n1" "new ''guarded'' = Some n2" "new ''lit'' = Some n3"
  shows "smooth_blend prev new s =
     Inr [''calm'' \<mapsto> py_round (fadd (fmul (Fl (1 - s)) n1) (fmul (Fl s) p1)) 3,
          ''guarded'' \<mapsto> py_round (fadd (fmul (Fl (1 - s)) n2) (fmul (Fl s) p2)) 3,
          ''lit'' \<mapsto> py_round (fadd (fmul (Fl (1 - s)) n3) (fmul (Fl s) p3)) 3]"
  using assms by (simp add: smooth_blend_def EMOTION_LABELS_def getitem_def)

lemma smooth_blend3:
  "smooth_blend [''calm'' \<mapsto> p1, ''guarded'' \<mapsto> p2, ''lit'' \<mapsto> p3]
                [''calm'' \<mapsto> n1, ''guarded'' \<mapsto> n2, ''lit'' \<mapsto> n3] s =
     Inr [''calm'' \<mapsto> py_round (fadd (fmul (Fl (1 - s)) n1) (fmul (Fl s) p1)) 3,
          ''guarded'' \<mapsto> py_round (fadd (fmul (Fl (1 - s)) n2) (fmul (Fl s) p2)) 3,
          ''lit'' \<mapsto> py_round (fadd (fmul (Fl (1 - s)) n3) (fmul (Fl s) p3)) 3]"
  by (rule smooth_blend_keys) simp_all

text \<open>
  C5, as the specification states it, fails: with retention 0 the result is not the current
  distribution when that has more than three decimals.
\<close>

theorem smooth_blend_end_points_not_exact:
  "smooth_blend [''calm'' \<mapsto> Fl 0.2, ''guarded'' \<mapsto> Fl 0.3, ''lit'' \<mapsto> Fl 0.5]
                [''calm'' \<mapsto> Fl 0.2504, ''guarded'' \<mapsto> Fl 0.2504, ''lit'' \<mapsto> Fl 0.4992] 0
     = Inr [''calm'' \<mapsto> Fl 0.25, ''guarded'' \<mapsto> Fl 0.25, ''lit'' \<mapsto> Fl 0.499]
   \<and> smooth_blend [''calm'' \<mapsto> Fl 0.2, ''guarded'' \<mapsto> Fl 0.3, ''lit'' \<mapsto> Fl 0.5]
                [''calm'' \<mapsto> Fl 0.2504, ''guarded'' \<mapsto> Fl 0.2504, ''lit'' \<mapsto> Fl 0.4992] 0
     \<noteq> Inr [''calm'' \<mapsto> Fl 0.2504, ''guarded'' \<mapsto> Fl 0.2504, ''lit'' \<mapsto> Fl 0.4992]"
proof -
  have v: "smooth_blend [''calm'' \<mapsto> Fl 0.2, ''guarded'' \<mapsto> Fl 0.3, ''lit'' \<mapsto> Fl 0.5]
                [''calm'' \<mapsto> Fl 0.2504, ''guarded'' \<mapsto> Fl 0.2504, ''lit'' \<mapsto> Fl 0.4992] 0
     = Inr [''calm'' \<mapsto> Fl 0.25, ''guarded'' \<mapsto> Fl 0.25, ''lit'' \<mapsto> Fl 0.499]"
    by (simp add: smooth_blend3 rint_def Let_def)
  have "[''calm'' \<mapsto> Fl 0.25, ''guarded'' \<mapsto> Fl 0.25, ''lit'' \<mapsto> Fl 0.499] ''calm''
      \<noteq> [''calm'' \<mapsto> Fl 0.2504, ''guarded'' \<mapsto> Fl 0.2504, ''lit'' \<mapsto> Fl 0.4992] ''calm''"
    by simp
  then have "[''calm'' \<mapsto> Fl 0.25, ''guarded'' \<mapsto> Fl 0.25, ''lit'' \<mapsto> Fl 0.499]
      \<noteq> [''calm'' \<mapsto> Fl 0.2504, ''guarded'' \<mapsto> Fl 0.2504, ''lit'' \<mapsto> Fl 0.4992]"
    by metis
  with v show ?thesis by simp
qed

text \<open>
  C5, amended.  For distributions on the three labels, \<open>smooth_blend\<close> with retention 0
  returns the current distribution with each component rounded to three decimals, and with
  retention 1 the previous distribution with each component rounded to three decimals.
\<close>

theorem smooth_blend_end_points:
  "smooth_blend [''calm'' \<mapsto> Fl p1, ''guarded'' \<mapsto> Fl p2, ''lit'' \<mapsto> Fl p3]
                [''calm'' \<mapsto> Fl c1, ''guarded'' \<mapsto> Fl c2, ''lit'' \<mapsto> Fl c3] 0
     = Inr [''calm'' \<mapsto> py_round (Fl c1) 3, ''guarded'' \<mapsto> py_round (Fl c2) 3,
            ''lit'' \<mapsto> py_round (Fl c3) 3]
   \<and> smooth_blend [''calm'' \<mapsto> Fl p1, ''guarded'' \<mapsto> Fl p2, ''lit'' \<mapsto> Fl p3]
                [''calm'' \<mapsto> Fl c1, ''guarded'' \<mapsto> Fl c2, ''lit'' \<mapsto> Fl c3] 1
     = Inr [''calm'' \<mapsto> py_round (Fl p1) 3, ''guarded'' \<mapsto> py_round (Fl p2) 3,
            ''lit'' \<mapsto> py_round (Fl p3) 3]"
  by (simp add: smooth_blend3)

text \<open>
  C4, as the specification states it, fails: both inputs sum to 1 and the output sums to
  0.999.
\<close>

theorem smooth_blend_sum_drifts:
  "smooth_blend [''calm'' \<mapsto> Fl 0.3334, ''guarded'' \<mapsto> Fl 0.3334, ''lit'' \<mapsto> Fl 0.3332]
                [''calm'' \<mapsto> Fl 0.3334, ''guarded'' \<mapsto> Fl 0.3334, ''lit'' \<mapsto> Fl 0.3332] 0.3
     = Inr [''calm'' \<mapsto> Fl 0.333, ''guarded'' \<mapsto> Fl 0.333, ''lit'' \<mapsto> Fl 0.333]
   \<and> \<bar>(0.3334 + 0.3334 + 0.3332 :: real) - 1\<bar> \<le> 1 / 10 ^ 6
   \<and> \<not> \<bar>(0.333 + 0.333 + 0.333 :: real) - 1\<bar> \<le> 1 / 10 ^ 6"
  by (simp add: smooth_blend3 rint_def Let_def)

lemma affine_sum_near_one:
  fixes s ep :: real
  assumes s: "0 \<le> s" "s \<le> 1"
    and p: "\<bar>sp - 1\<bar> \<le> ep" and c: "\<bar>sc - 1\<bar> \<le> ep"
  shows "\<bar>((1 - s) * sc + s * sp) - 1\<bar> \<le> ep"
proof -
  have e: "((1 - s) * sc + s * sp) - 1 = (1 - s) * (sc - 1) + s * (sp - 1)"
    by (simp add: algebra_simps)
  have "\<bar>(1 - s) * (sc - 1)\<bar> \<le> (1 - s) * ep"
    using s c by (simp add: abs_mult mult_left_mono)
  moreover have "\<bar>s * (sp - 1)\<bar> \<le> s * ep"
    using s p by (simp add: abs_mult mult_left_mono)
  moreover have "(1 - s) * ep + s * ep = ep" by (simp add: algebra_simps)
  ultimately show ?thesis unfolding e by linarith
qed

text \<open>
  C4, amended.  When the components of the previous and of the current distribution each
  sum to 1 within 1e-6 and the retention lies in [0, 1], every component of the output of
  \<open>smooth_blend\<close> is the interpolation rounded to three decimals, nothing is renormalised,
  and the components sum to 1 within 1e-6 + 0.0015.
\<close>

theorem smooth_blend_sum_within_rounding:
  assumes "\<bar>p1 + p2 + p3 - 1\<bar> \<le> 1 / 10 ^ 6" and "\<bar>c1 + c2 + c3 - 1\<bar> \<le> 1 / 10 ^ 6"
    and "0 \<le> s" and "s \<le> 1"
  shows "\<exists>r1 r2 r3.
     smooth_blend [''calm'' \<mapsto> Fl p1, ''guarded'' \<mapsto> Fl p2, ''lit'' \<mapsto> Fl p3]
                  [''calm'' \<mapsto> Fl c1, ''guarded'' \<mapsto> Fl c2, ''lit'' \<mapsto> Fl c3] s
       = Inr [''calm'' \<mapsto> Fl r1, ''guarded'' \<mapsto> Fl r2, ''lit'' \<mapsto> Fl r3]
     \<and> Fl r1 = py_round (Fl ((1 - s) * c1 + s * p1)) 3
     \<and> Fl r2 = py_round (Fl ((1 - s) * c2 + s * p2)) 3
     \<and> Fl r3 = py_round (Fl ((1 - s) * c3 + s * p3)) 3
     \<and> \<bar>r1 + r2 + r3 - 1\<bar> \<le> 1 / 10 ^ 6 + 15 / 10 ^ 4"
proof -
  define y1 y2 y3 where "y1 = (1 - s) * c1 + s * p1" and "y2 = (1 - s) * c2 + s * p2"
    and "y3 = (1 - s) * c3 + s * p3"
  obtain r1 where r1: "py_round (Fl y1) 3 = Fl r1" "\<bar>r1 - y1\<bar> \<le> 1 / (2 * 10 ^ 3)"
    using py_round_near [of y1 3] by blast
  obtain r2 where r2: "py_round (Fl y2) 3 = Fl r2" "\<bar>r2 - y2\<bar> \<le> 1 / (2 * 10 ^ 3)"
    using py_round_near [of y2 3] by blast
  obtain r3 where r3: "py_round (Fl y3) 3 = Fl r3" "\<bar>r3 - y3\<bar> \<le> 1 / (2 * 10 ^ 3)"
    using py_round_near [of y3 3] by blast
  have "y1 + y2 + y3 = (1 - s) * (c1 + c2 + c3) + s * (p1 + p2 + p3)"
    by (simp add: y1_def y2_def y3_def algebra_simps)
  then have y: "\<bar>y1 + y2 + y3 - 1\<bar> \<le> 1 / 10 ^ 6"
    using affine_sum_near_one [OF assms(3) assms(4) assms(1) assms(2)] by simp
  have sum: "\<bar>r1 + r2 + r3 - 1\<bar> \<le> 1 / 10 ^ 6 + 15 / 10 ^ 4"
  proof -
    have "\<bar>r1 - y1\<bar> \<le> 5 / 10 ^ 4" "\<bar>r2 - y2\<bar> \<le> 5 / 10 ^ 4" "\<bar>r3 - y3\<bar> \<le> 5 / 10 ^ 4"
      using r1(2) r2(2) r3(2) by simp_all
    with y show ?thesis by linarith
  qed
  have sb: "smooth_blend [''calm'' \<mapsto> Fl p1, ''guarded'' \<mapsto> Fl p2, ''lit'' \<mapsto> Fl p3]
                  [''calm'' \<mapsto> Fl c1, ''guarded'' \<mapsto> Fl c2, ''lit'' \<mapsto> Fl c3] s
       = Inr [''calm'' \<mapsto> Fl r1, ''guarded'' \<mapsto> Fl r2, ''lit'' \<mapsto> Fl r3]"
    unfolding smooth_blend3 using r1(1) r2(1) r3(1) by (simp add: y1_def y2_def y3_def)
  show ?thesis
    apply (rule exI [of _ r1], rule exI [of _ r2], rule exI [of _ r3])
    using sb sum r1(1) r2(1) r3(1) by (simp add: y1_def y2_def y3_def)
qed

theorem smooth_blend_sum_within_rounding_witness:
  "\<bar>(0.3334 + 0.3334 + 0.3332 :: real) - 1\<bar> \<le> 1 / 10 ^ 6
   \<and> \<bar>(0.2 + 0.3 + 0.5 :: real) - 1\<bar> \<le> 1 / 10 ^ 6 \<and> (0::real) \<le> 0.3 \<and> (0.3::real) \<le> 1
   \<and> (\<exists>r1 r2 r3.
     smooth_blend [''calm'' \<mapsto> Fl 0.3334, ''guarded'' \<mapsto> Fl 0.3334, ''lit'' \<mapsto> Fl 0.3332]
                  [''calm'' \<mapsto> Fl 0.2, ''guarded'' \<mapsto> Fl 0.3, ''lit'' \<mapsto> Fl 0.5] 0.3
       = Inr [''calm'' \<mapsto> Fl r1, ''guarded'' \<mapsto> Fl r2, ''lit'' \<mapsto> Fl r3]
     \<and> Fl r1 = py_round (Fl ((1 - 0.3) * 0.2 + 0.3 * 0.3334)) 3
     \<and> Fl r2 = py_round (Fl ((1 - 0.3) * 0.3 + 0.3 * 0.3334)) 3
     \<and> Fl r3 = py_round (Fl ((1 - 0.3) * 0.5 + 0.3 * 0.3332)) 3
     \<and> \<bar>r1 + r2 + r3 - 1\<bar> \<le> 1 / 10 ^ 6 + 15 / 10 ^ 4)"
proof -
  have h1: "\<bar>(0.3334 + 0.3334 + 0.3332 :: real) - 1\<bar> \<le> 1 / 10 ^ 6" by simp
  have h2: "\<bar>(0.2 + 0.3 + 0.5 :: real) - 1\<bar> \<le> 1 / 10 ^ 6" by simp
  have h3: "(0::real) \<le> 0.3" and h4: "(0.3::real) \<le> 1" by simp_all
  show ?thesis
    by (intro conjI h1 h2 h3 h4 smooth_blend_sum_within_rounding [OF h1 h2 h3 h4])
qed

section \<open>Parameters outside their documented range\<close>







section \<open>Modulation parameters\<close>

lemma compute_modulation_keys:
  assumes "b ''calm'' = Some calm" and "b ''guarded'' = Some guarded" and "b ''lit'' = Some lit"
  shows "compute_modulation b =
     Inr \<lparr> tts_pitch_shift = py_round (fmul (fsub lit calm) (Fl 0.08)) 3,
           tts_speed_scale =
             py_round (fsub (fadd (Fl 0.9) (fmul lit (Fl 0.2))) (fmul guarded (Fl 0.05))) 3,
           glow_intensity =
             py_round (fadd (fadd (fmul (Fl 0.4) calm) (fmul (Fl 0.25) guarded))
                            (fmul (Fl 0.9) lit)) 2,
           glow_hue = py_round (fadd (fmul (Fl 120) lit) (fmul (Fl 240) guarded)) 1,
           glow_easing_curve =
             (if fgt calm 0.6 then ''sine''
              else if fgt guarded 0.5 then ''ease-in''
              else ''cubic'') \<rparr>"
  using assms by (simp add: compute_modulation_def getitem_def)

lemma compute_modulation_missing:
  assumes "\<not> set EMOTION_LABELS \<subseteq> dom b"
  shows "\<exists>k \<in> set EMOTION_LABELS. k \<notin> dom b \<and> compute_modulation b = Inl (KeyError k)"
proof (cases "b ''calm''")
  case None
  then show ?thesis by (simp add: compute_modulation_def getitem_def EMOTION_LABELS_def dom_def)
next
  case c: (Some calm)
  show ?thesis
  proof (cases "b ''guarded''")
    case None
    with c show ?thesis
      by (simp add: compute_modulation_def getitem_def EMOTION_LABELS_def dom_def)
  next
    case g: (Some guarded)
    show ?thesis
    proof (cases "b ''lit''")
      case None
      with c g show ?thesis
        by (simp add: compute_modulation_def getitem_def EMOTION_LABELS_def dom_def)
    next
      case (Some lit)
      with c g assms show ?thesis by (auto simp: EMOTION_LABELS_def)
    qed
  qed
qed

text \<open>
  C7, as the specification states it, fails: probabilities outside [0, 1] and NaN
  components are not rejected; the parameters are computed from them.
\<close>

theorem malformed_blend_not_rejected:
  "compute_modulation [''calm'' \<mapsto> Fl 2, ''guarded'' \<mapsto> Fl (- 1), ''lit'' \<mapsto> Fl 0] =
     Inr \<lparr> tts_pitch_shift = Fl (- 0.16), tts_speed_scale = Fl 0.95, glow_intensity = Fl 0.55,
           glow_hue = Fl (- 240), glow_easing_curve = ''sine'' \<rparr>
   \<and> compute_modulation [''calm'' \<mapsto> NaN, ''guarded'' \<mapsto> NaN, ''lit'' \<mapsto> NaN] =
     Inr \<lparr> tts_pitch_shift = NaN, tts_speed_scale = NaN, glow_intensity = NaN,
           glow_hue = NaN, glow_easing_curve = ''cubic'' \<rparr>"
  by (simp add: compute_modulation_def getitem_def rint_def Let_def)

text \<open>
  C7, amended.  \<open>compute_modulation\<close> raises nothing for any dict that has the three labels,
  whatever their values, and so for every well-formed distribution.  When a label is
  missing it fails with the KeyError of a missing label, at the lookup, before any
  arithmetic.
\<close>

theorem compute_modulation_fails_on_missing_key_only:
  "(set EMOTION_LABELS \<subseteq> dom b \<longrightarrow> (\<exists>m. compute_modulation b = Inr m))
   \<and> (\<not> set EMOTION_LABELS \<subseteq> dom b \<longrightarrow>
        (\<exists>k \<in> set EMOTION_LABELS. k \<notin> dom b \<and> compute_modulation b = Inl (KeyError k)))"
proof (intro conjI impI)
  assume "set EMOTION_LABELS \<subseteq> dom b"
  then obtain calm guarded lit where
    "b ''calm'' = Some calm" "b ''guarded'' = Some guarded" "b ''lit'' = Some lit"
    by (auto simp: EMOTION_LABELS_def)
  then show "\<exists>m. compute_modulation b = Inr m"
    using compute_modulation_keys [of b calm guarded lit] by simp
next
  assume "\<not> set EMOTION_LABELS \<subseteq> dom b"
  then show "\<exists>k \<in> set EMOTION_LABELS. k \<notin> dom b \<and> compute_modulation b = Inl (KeyError k)"
    by (rule compute_modulation_missing)
qed

theorem compute_modulation_fails_on_missing_key_only_witness:
  "set EMOTION_LABELS \<subseteq> dom [''calm'' \<mapsto> Fl 0.2, ''guarded'' \<mapsto> Fl 0.3, ''lit'' \<mapsto> Fl 0.5]
   \<and> (\<exists>m. compute_modulation [''calm'' \<mapsto> Fl 0.2, ''guarded'' \<mapsto> Fl 0.3, ''lit'' \<mapsto> Fl 0.5] = Inr m)
   \<and> \<not> set EMOTION_LABELS \<subseteq> dom [''calm'' \<mapsto> Fl 0.5, ''lit'' \<mapsto> Fl 0.5]
   \<and> (\<exists>k \<in> set EMOTION_LABELS. k \<notin> dom [''calm'' \<mapsto> Fl 0.5, ''lit'' \<mapsto> Fl 0.5]
         \<and> compute_modulation [''calm'' \<mapsto> Fl 0.5, ''lit'' \<mapsto> Fl 0.5] = Inl (KeyError k))"
proof -
  have h1: "set EMOTION_LABELS \<subseteq> dom [''calm'' \<mapsto> Fl 0.2, ''guarded'' \<mapsto> Fl 0.3, ''lit'' \<mapsto> Fl 0.5]"
    by (simp add: EMOTION_LABELS_def)
  have h2: "\<not> set EMOTION_LABELS \<subseteq> dom [''calm'' \<mapsto> Fl 0.5, ''lit'' \<mapsto> Fl 0.5]"
    by (simp add: EMOTION_LABELS_def)
  show ?thesis
    by (intro conjI h1 h2
          compute_modulation_fails_on_missing_key_only [THEN conjunct1, THEN mp, OF h1]
          compute_modulation_fails_on_missing_key_only [THEN conjunct2, THEN mp, OF h2])
qed

lemma py_round_between:
  assumes "lo \<le> x" and "x \<le> hi"
    and "py_round (Fl lo) n = Fl lo" and "py_round (Fl hi) n = Fl hi"
  shows "\<exists>r. py_round (Fl x) n = Fl r \<and> lo \<le> r \<and> r \<le> hi"
proof -
  obtain r where r: "py_round (Fl x) n = Fl r" using py_round_near [of x n] by blast
  have "lo \<le> r" using assms(1) assms(3) r by (rule py_round_mono)
  moreover have "r \<le> hi" using assms(2) r assms(4) by (rule py_round_mono)
  ultimately show ?thesis using r by blast
qed

text \<open>
  C9, as the specification states it, fails: the glow intensity of pure calm is 0.4, and
  pure guarded has the lower intensity 0.25.
\<close>

theorem pure_calm_glow_not_lowest:
  "compute_modulation [''calm'' \<mapsto> Fl 1, ''guarded'' \<mapsto> Fl 0, ''lit'' \<mapsto> Fl 0] =
     Inr \<lparr> tts_pitch_shift = Fl (- 0.08), tts_speed_scale = Fl 0.9, glow_intensity = Fl 0.4,
           glow_hue = Fl 0, glow_easing_curve = ''sine'' \<rparr>
   \<and> compute_modulation [''calm'' \<mapsto> Fl 0, ''guarded'' \<mapsto> Fl 1, ''lit'' \<mapsto> Fl 0] =
     Inr \<lparr> tts_pitch_shift = Fl 0, tts_speed_scale = Fl 0.85, glow_intensity = Fl 0.25,
           glow_hue = Fl 240, glow_easing_curve = ''ease-in'' \<rparr>
   \<and> (0.25 :: real) < 0.4"
  by (simp add: compute_modulation_def getitem_def rint_def Let_def)

text \<open>
  C9, amended.  At pure calm the pitch shift is -0.08, the glow intensity 0.4 and the easing
  curve "sine"; at pure lit the pitch shift is 0.08, the glow intensity 0.9 and the easing
  curve "cubic"; at pure guarded the glow intensity is 0.25.  For every distribution
  (components at least 0, summing to 1) the pitch shift lies between -0.08 and 0.08 and the
  glow intensity between 0.25 and 0.9: pure calm has the most negative pitch shift, pure lit
  the largest pitch shift and the highest glow, and the lowest glow is that of pure guarded.
\<close>

theorem modulation_at_pure_corners:
  assumes "0 \<le> c" and "0 \<le> g" and "0 \<le> l" and "c + g + l = 1"
  shows "compute_modulation [''calm'' \<mapsto> Fl 1, ''guarded'' \<mapsto> Fl 0, ''lit'' \<mapsto> Fl 0] =
       Inr \<lparr> tts_pitch_shift = Fl (- 0.08), tts_speed_scale = Fl 0.9, glow_intensity = Fl 0.4,
             glow_hue = Fl 0, glow_easing_curve = ''sine'' \<rparr>
     \<and> compute_modulation [''calm'' \<mapsto> Fl 0, ''guarded'' \<mapsto> Fl 0, ''lit'' \<mapsto> Fl 1] =
       Inr \<lparr> tts_pitch_shift = Fl 0.08, tts_speed_scale = Fl 1.1, glow_intensity = Fl 0.9,
             glow_hue = Fl 120, glow_easing_curve = ''cubic'' \<rparr>
     \<and> compute_modulation [''calm'' \<mapsto> Fl 0, ''guarded'' \<mapsto> Fl 1, ''lit'' \<mapsto> Fl 0] =
       Inr \<lparr> tts_pitch_shift = Fl 0, tts_speed_scale = Fl 0.85, glow_intensity = Fl 0.25,
             glow_hue = Fl 240, glow_easing_curve = ''ease-in'' \<rparr>
     \<and> (\<exists>m p q. compute_modulation [''calm'' \<mapsto> Fl c, ''guarded'' \<mapsto> Fl g, ''lit'' \<mapsto> Fl l] = Inr m
           \<and> tts_pitch_shift m = Fl p \<and> - 0.08 \<le> p \<and> p \<le> 0.08
           \<and> glow_intensity m = Fl q \<and> 0.25 \<le> q \<and> q \<le> 0.9)"
proof -
  have corners:
    "compute_modulation [''calm'' \<mapsto> Fl 1, ''guarded'' \<mapsto> Fl 0, ''lit'' \<mapsto> Fl 0] =
       Inr \<lparr> tts_pitch_shift = Fl (- 0.08), tts_speed_scale = Fl 0.9, glow_intensity = Fl 0.4,
             glow_hue = Fl 0, glow_easing_curve = ''sine'' \<rparr>"
    "compute_modulation [''calm'' \<mapsto> Fl 0, ''guarded'' \<mapsto> Fl 0, ''lit'' \<mapsto> Fl 1] =
       Inr \<lparr> tts_pitch_shift = Fl 0.08, tts_speed_scale = Fl 1.1, glow_intensity = Fl 0.9,
             glow_hue = Fl 120, glow_easing_curve = ''cubic'' \<rparr>"
    "compute_modulation [''calm'' \<mapsto> Fl 0, ''guarded'' \<mapsto> Fl 1, ''lit'' \<mapsto> Fl 0] =
       Inr \<lparr> tts_pitch_shift = Fl 0, tts_speed_scale = Fl 0.85, glow_intensity = Fl 0.25,
             glow_hue = Fl 240, glow_easing_curve = ''ease-in'' \<rparr>"
    by (simp_all add: compute_modulation_def getitem_def rint_def Let_def)
  have le1: "c \<le> 1" "l \<le> 1" using assms by linarith+
  have "- 0.08 \<le> (l - c) * 0.08" and "(l - c) * 0.08 \<le> 0.08"
    using assms le1 by simp_all
  moreover have "py_round (Fl (- 0.08)) 3 = Fl (- 0.08)" and "py_round (Fl 0.08) 3 = Fl 0.08"
    by (simp_all add: rint_def Let_def)
  ultimately obtain p where
    p: "py_round (Fl ((l - c) * 0.08)) 3 = Fl p" "- 0.08 \<le> p" "p \<le> 0.08"
    using py_round_between [of "- 0.08" "(l - c) * 0.08" "0.08" 3] by blast
  have "0.25 \<le> 0.4 * c + 0.25 * g + 0.9 * l" and "0.4 * c + 0.25 * g + 0.9 * l \<le> 0.9"
    using assms by simp_all
  moreover have "py_round (Fl 0.25) 2 = Fl 0.25" and "py_round (Fl 0.9) 2 = Fl 0.9"
    by (simp_all add: rint_def Let_def)
  ultimately obtain q where
    q: "py_round (Fl (0.4 * c + 0.25 * g + 0.9 * l)) 2 = Fl q" "0.25 \<le> q" "q \<le> 0.9"
    using py_round_between [of "0.25" "0.4 * c + 0.25 * g + 0.9 * l" "0.9" 2] by blast
  have cm: "compute_modulation [''calm'' \<mapsto> Fl c, ''guarded'' \<mapsto> Fl g, ''lit'' \<mapsto> Fl l] =
     Inr \<lparr> tts_pitch_shift = py_round (Fl ((l - c) * 0.08)) 3,
           tts_speed_scale = py_round (Fl (0.9 + l * 0.2 - g * 0.05)) 3,
           glow_intensity = py_round (Fl (0.4 * c + 0.25 * g + 0.9 * l)) 2,
           glow_hue = py_round (Fl (120 * l + 240 * g)) 1,
           glow_easing_curve =
             (if 0.6 < c then ''sine'' else if 0.5 < g then ''ease-in'' else ''cubic'') \<rparr>"
    by (simp add: compute_modulation_def getitem_def del: py_round.simps)
  have "\<exists>m p q. compute_modulation [''calm'' \<mapsto> Fl c, ''guarded'' \<mapsto> Fl g, ''lit'' \<mapsto> Fl l] = Inr m
           \<and> tts_pitch_shift m = Fl p \<and> - 0.08 \<le> p \<and> p \<le> 0.08
           \<and> glow_intensity m = Fl q \<and> 0.25 \<le> q \<and> q \<le> 0.9"
    unfolding cm using p q by (simp del: py_round.simps)
  with corners show ?thesis by (intro conjI)
qed

theorem modulation_at_pure_corners_witness:
  "(0::real) \<le> 0.2 \<and> (0::real) \<le> 0.3 \<and> (0::real) \<le> 0.5 \<and> (0.2 + 0.3 + 0.5 :: real) = 1
   \<and> (\<exists>m p q. compute_modulation [''calm'' \<mapsto> Fl 0.2, ''guarded'' \<mapsto> Fl 0.3, ''lit'' \<mapsto> Fl 0.5] = Inr m
           \<and> tts_pitch_shift m = Fl p \<and> - 0.08 \<le> p \<and> p \<le> 0.08
           \<and> glow_intensity m = Fl q \<and> 0.25 \<le> q \<and> q \<le> 0.9)"
proof -
  have h1: "(0::real) \<le> 0.2" and h2: "(0::real) \<le> 0.3" and h3: "(0::real) \<le> 0.5"
    and h4: "(0.2 + 0.3 + 0.5 :: real) = 1" by simp_all
  note t = modulation_at_pure_corners [OF h1 h2 h3 h4]
  show ?thesis
    by (intro conjI h1 h2 h3 h4 t [THEN conjunct2, THEN conjunct2, THEN conjunct2])
qed

section \<open>The pipeline\<close>

text \<open>
  C10.  \<open>process_emotion_logits\<close> tests the truth value of \<open>prev_blend\<close>.  With \<^verbatim>\<open>None\<close>
  and with the empty dict alike it does not smooth: the result is the blend of
  \<open>blend_emotions\<close> with sharpness 0.7, unchanged, and its modulation, and for three scores
  this result is returned.  With any non-empty dict it calls \<open>smooth_blend\<close> with retention
  0.3 on that dict and the new blend, and computes the modulation of the smoothed blend.
\<close>

theorem pipeline_smooths_iff_truthy:
  "process_emotion_logits logits None =
     (case blend_emotions logits 0.7 of Inl e \<Rightarrow> Inl e | Inr new_blend \<Rightarrow>
        (case compute_modulation new_blend of Inl e \<Rightarrow> Inl e | Inr m \<Rightarrow>
           Inr \<lparr> blend_vector = new_blend, modulation = m \<rparr>))
   \<and> process_emotion_logits logits (Some Map.empty) = process_emotion_logits logits None
   \<and> (\<exists>new_blend m. blend_emotions [a, b, c] 0.7 = Inr new_blend
         \<and> process_emotion_logits [a, b, c] None = Inr \<lparr> blend_vector = new_blend, modulation = m \<rparr>
         \<and> process_emotion_logits [a, b, c] (Some Map.empty) =
              Inr \<lparr> blend_vector = new_blend, modulation = m \<rparr>)
   \<and> (d \<noteq> Map.empty \<longrightarrow>
        process_emotion_logits logits (Some d) =
          (case blend_emotions logits 0.7 of Inl e \<Rightarrow> Inl e | Inr new_blend \<Rightarrow>
             (case smooth_blend d new_blend 0.3 of Inl e \<Rightarrow> Inl e | Inr final_blend \<Rightarrow>
                (case compute_modulation final_blend of Inl e \<Rightarrow> Inl e | Inr m \<Rightarrow>
                   Inr \<lparr> blend_vector = final_blend, modulation = m \<rparr>))))"
proof (intro conjI impI)
  show "process_emotion_logits logits None =
     (case blend_emotions logits 0.7 of Inl e \<Rightarrow> Inl e | Inr new_blend \<Rightarrow>
        (case compute_modulation new_blend of Inl e \<Rightarrow> Inl e | Inr m \<Rightarrow>
           Inr \<lparr> blend_vector = new_blend, modulation = m \<rparr>))"
    by (simp add: process_emotion_logits_def truthy_def split: sum.splits)
  show "process_emotion_logits logits (Some Map.empty) = process_emotion_logits logits None"
    by (simp add: process_emotion_logits_def truthy_def split: sum.splits)
  show "\<exists>new_blend m. blend_emotions [a, b, c] 0.7 = Inr new_blend
         \<and> process_emotion_logits [a, b, c] None = Inr \<lparr> blend_vector = new_blend, modulation = m \<rparr>
         \<and> process_emotion_logits [a, b, c] (Some Map.empty) =
              Inr \<lparr> blend_vector = new_blend, modulation = m \<rparr>"
  proof -
    obtain p1 p2 p3 where
      be: "blend_emotions [a, b, c] 0.7 =
             Inr [''calm'' \<mapsto> Fl p1, ''guarded'' \<mapsto> Fl p2, ''lit'' \<mapsto> Fl p3]"
      using blend_emotions3 [of "0.7" a b c] by simp
    obtain m where
      cm: "compute_modulation [''calm'' \<mapsto> Fl p1, ''guarded'' \<mapsto> Fl p2, ''lit'' \<mapsto> Fl p3] = Inr m"
      using compute_modulation_keys
        [of "[''calm'' \<mapsto> Fl p1, ''guarded'' \<mapsto> Fl p2, ''lit'' \<mapsto> Fl p3]" "Fl p1" "Fl p2" "Fl p3"]
      by simp
    show ?thesis
      by (rule exI [of _ "[''calm'' \<mapsto> Fl p1, ''guarded'' \<mapsto> Fl p2, ''lit'' \<mapsto> Fl p3]"],
          rule exI [of _ m])
         (simp add: process_emotion_logits_def truthy_def be cm)
  qed
  show "process_emotion_logits logits (Some d) =
          (case blend_emotions logits 0.7 of Inl e \<Rightarrow> Inl e | Inr new_blend \<Rightarrow>
             (case smooth_blend d new_blend 0.3 of Inl e \<Rightarrow> Inl e | Inr final_blend \<Rightarrow>
                (case compute_modulation final_blend of Inl e \<Rightarrow> Inl e | Inr m \<Rightarrow>
                   Inr \<lparr> blend_vector = final_blend, modulation = m \<rparr>)))"
    if "d \<noteq> Map.empty"
    using that by (simp add: process_emotion_logits_def truthy_def split: sum.splits)
qed

theorem pipeline_smooths_iff_truthy_witness:
  "[''calm'' \<mapsto> Fl 1] \<noteq> Map.empty
   \<and> process_emotion_logits [0, 0, 0] (Some [''calm'' \<mapsto> Fl 1]) = Inl (KeyError ''guarded'')
   \<and> [''calm'' \<mapsto> Fl 1, ''guarded'' \<mapsto> Fl 0, ''lit'' \<mapsto> Fl 0] \<noteq> Map.empty
   \<and> process_emotion_logits [0, 0, 0] (Some [''calm'' \<mapsto> Fl 1, ''guarded'' \<mapsto> Fl 0, ''lit'' \<mapsto> Fl 0]) =
       Inr \<lparr> blend_vector = [''calm'' \<mapsto> Fl 0.533, ''guarded'' \<mapsto> Fl 0.233, ''lit'' \<mapsto> Fl 0.233],
             modulation = \<lparr> tts_pitch_shift = Fl (- 0.024), tts_speed_scale = Fl 0.935,
               glow_intensity = Fl 0.48, glow_hue = Fl 83.9, glow_easing_curve = ''cubic'' \<rparr> \<rparr>"
proof -
  have h1: "[''calm'' \<mapsto> Fl 1] \<noteq> Map.empty" by simp
  have h2: "[''calm'' \<mapsto> Fl 1, ''guarded'' \<mapsto> Fl 0, ''lit'' \<mapsto> Fl 0] \<noteq> Map.empty" by simp
  have be: "blend_emotions [0, 0, 0] 0.7 =
     Inr [''calm'' \<mapsto> Fl (1 / 3), ''guarded'' \<mapsto> Fl (1 / 3), ''lit'' \<mapsto> Fl (1 / 3)]"
    by (simp add: blend_emotions3)
  have s1: "smooth_blend [''calm'' \<mapsto> Fl 1]
       [''calm'' \<mapsto> Fl (1 / 3), ''guarded'' \<mapsto> Fl (1 / 3), ''lit'' \<mapsto> Fl (1 / 3)] 0.3
      = Inl (KeyError ''guarded'')"
    by (simp add: smooth_blend_def EMOTION_LABELS_def getitem_def)
  have s2: "smooth_blend [''calm'' \<mapsto> Fl 1, ''guarded'' \<mapsto> Fl 0, ''lit'' \<mapsto> Fl 0]
       [''calm'' \<mapsto> Fl (1 / 3), ''guarded'' \<mapsto> Fl (1 / 3), ''lit'' \<mapsto> Fl (1 / 3)] 0.3
      = Inr [''calm'' \<mapsto> Fl 0.533, ''guarded'' \<mapsto> Fl 0.233, ''lit'' \<mapsto> Fl 0.233]"
    by (simp add: smooth_blend3 rint_def Let_def)
  have cm: "compute_modulation [''calm'' \<mapsto> Fl 0.533, ''guarded'' \<mapsto> Fl 0.233, ''lit'' \<mapsto> Fl 0.233]
      = Inr \<lparr> tts_pitch_shift = Fl (- 0.024), tts_speed_scale = Fl 0.935,
               glow_intensity = Fl 0.48, glow_hue = Fl 83.9, glow_easing_curve = ''cubic'' \<rparr>"
    by (simp add: compute_modulation_def getitem_def rint_def Let_def)
  have t1: "process_emotion_logits [0, 0, 0] (Some [''calm'' \<mapsto> Fl 1]) = Inl (KeyError ''guarded'')"
    using pipeline_smooths_iff_truthy
      [of "[0, 0, 0]" 0 0 0 "[''calm'' \<mapsto> Fl 1]", THEN conjunct2, THEN conjunct2, THEN conjunct2,
        THEN mp, OF h1]
    by (simp add: be s1)
  have t2: "process_emotion_logits [0, 0, 0]
        (Some [''calm'' \<mapsto> Fl 1, ''guarded'' \<mapsto> Fl 0, ''lit'' \<mapsto> Fl 0]) =
       Inr \<lparr> blend_vector = [''calm'' \<mapsto> Fl 0.533, ''guarded'' \<mapsto> Fl 0.233, ''lit'' \<mapsto> Fl 0.233],
             modulation = \<lparr> tts_pitch_shift = Fl (- 0.024), tts_speed_scale = Fl 0.935,
               glow_intensity = Fl 0.48, glow_hue = Fl 83.9, glow_easing_curve = ''cubic'' \<rparr> \<rparr>"
    using pipeline_smooths_iff_truthy
      [of "[0, 0, 0]" 0 0 0 "[''calm'' \<mapsto> Fl 1, ''guarded'' \<mapsto> Fl 0, ''lit'' \<mapsto> Fl 0]",
        THEN conjunct2, THEN conjunct2, THEN conjunct2, THEN mp, OF h2] cm
    by (simp add: be s2)
  show ?thesis by (intro conjI h1 h2 t1 t2)
qed

end
